theory Spec2Isabelle
  imports Complex_Main
begin

section \<open>JavaScript values\<close>

text \<open>
  The values the key-value store and the verification service hand to the code are parsed
  JSON. A number is the double the literal parses to: \<open>JNum n\<close> when it is the integer
  \<open>n\<close>, \<open>JFrac x\<close> when it is finite and not an integer, \<open>JInf b\<close> when the literal is too
  large for a double and parses to \<open>Infinity\<close> (\<open>b\<close>) or \<open>-Infinity\<close>. An object is the
  association list of its own properties.
\<close>

datatype json =
    JNull
  | JBool bool
  | JNum int
  | JFrac real
  | JInf bool
  | JStr string
  | JArr "json list"
  | JObj "(string \<times> json) list"

text \<open>A number of the language: \<open>NaN\<close>, an integer, a finite number that is not an
  integer, or an infinity (\<open>Inf True\<close> is \<open>Infinity\<close>).\<close>

datatype jsnum = NaN | Num int | Frac real | Inf bool

text \<open>Whatever a \<open>throw\<close> carries: the \<open>TypeError\<close> of the language, or an error
  raised by a collaborator (store, network, JSON parser).\<close>

datatype exn = TypeError | Thrown string

text \<open>
  Four functions of the language's runtime are parameters, since they are not code of
  the repository: the conversion of a string to a number, the conversion of a number to
  a string, the rounding of the exact result of an addition or subtraction to a double
  (or an infinity), and \<open>String.prototype.trim\<close>. The code reaches the first three only
  when a stored timestamp is not an integer within the range in which doubles are exact.
\<close>

record js_runtime =
  StringToNumber :: "string \<Rightarrow> jsnum"
  NumberToString :: "jsnum \<Rightarrow> string"
  rounding :: "real \<Rightarrow> jsnum"
  trim :: "string \<Rightarrow> string"

text \<open>Truthiness, as tested by \<open>!v\<close>, \<open>v || d\<close> and \<open>if (v)\<close>.\<close>

fun truthy :: "json \<Rightarrow> bool" where
  "truthy JNull = False"
| "truthy (JBool b) = b"
| "truthy (JNum n) = (n \<noteq> 0)"
| "truthy (JFrac x) = (x \<noteq> 0)"
| "truthy (JInf b) = True"
| "truthy (JStr s) = (s \<noteq> [])"
| "truthy (JArr xs) = True"
| "truthy (JObj kvs) = True"

text \<open>Truthiness of a value that is a string or \<open>null\<close> (\<open>None\<close>).\<close>

fun truthy_str :: "string option \<Rightarrow> bool" where
  "truthy_str None = False"
| "truthy_str (Some s) = (s \<noteq> [])"

text \<open>
  Reading an own data property \<open>v.k\<close> of a value that is not \<open>null\<close>; \<open>None\<close> is
  \<open>undefined\<close>. Used for the names \<open>timestamps\<close> and \<open>success\<close>, which no prototype
  defines, so only an object can have them.
\<close>

fun get_prop :: "json \<Rightarrow> string \<Rightarrow> json option" where
  "get_prop (JObj kvs) k = map_of kvs k"
| "get_prop v k = None"

text \<open>Whether \<open>v.k\<close> is truthy, for a value \<open>v\<close> that is not \<open>null\<close>; \<open>undefined\<close> is
  falsy.\<close>

definition truthy_prop :: "json \<Rightarrow> string \<Rightarrow> bool" where
  "truthy_prop v k = (case get_prop v k of None \<Rightarrow> False | Some b \<Rightarrow> truthy b)"

text \<open>
  The conversion of a value to a string, as \<open>Array.prototype.join\<close> applies it to the
  elements of an array, and \<open>join\<close> itself with the separator \<open>,\<close>. An object parsed from
  JSON has no callable property of its own: when it has an own property \<open>toString\<close>,
  that one hides \<open>Object.prototype.toString\<close>, neither \<open>toString\<close> nor \<open>valueOf\<close>
  gives a primitive, and the conversion throws a \<open>TypeError\<close>. \<open>join\<close> writes \<open>null\<close> as
  the empty string.
\<close>

fun ToString :: "js_runtime \<Rightarrow> json \<Rightarrow> exn + string"
  and join :: "js_runtime \<Rightarrow> json list \<Rightarrow> exn + string" where
  "ToString rt JNull = Inr ''null''"
| "ToString rt (JBool b) = Inr (if b then ''true'' else ''false'')"
| "ToString rt (JNum n) = Inr (NumberToString rt (Num n))"
| "ToString rt (JFrac x) = Inr (NumberToString rt (Frac x))"
| "ToString rt (JInf b) = Inr (NumberToString rt (Inf b))"
| "ToString rt (JStr s) = Inr s"
| "ToString rt (JArr xs) = join rt xs"
| "ToString rt (JObj kvs) =
     (if map_of kvs ''toString'' \<noteq> None then Inl TypeError else Inr ''[object Object]'')"
| "join rt [] = Inr []"
| "join rt (x # xs) =
     (case (case x of JNull \<Rightarrow> Inr [] | v \<Rightarrow> ToString rt x) of
        Inl e \<Rightarrow> Inl e
      | Inr s \<Rightarrow>
         (if xs = [] then Inr s
          else (case join rt xs of Inl e \<Rightarrow> Inl e | Inr t \<Rightarrow> Inr (s @ '','' @ t))))"

text \<open>
  The conversion of a value to a primitive, as \<open>>\<close> and \<open>+\<close> apply it: an array gives
  the string of its \<open>join\<close>, an object the string \<open>[object Object]\<close> or a \<open>TypeError\<close>, as
  above; a primitive is left as it is.
\<close>

fun ToPrimitive :: "js_runtime \<Rightarrow> json \<Rightarrow> exn + json" where
  "ToPrimitive rt (JArr xs) =
     (case join rt xs of Inl e \<Rightarrow> Inl e | Inr s \<Rightarrow> Inr (JStr s))"
| "ToPrimitive rt (JObj kvs) =
     (if map_of kvs ''toString'' \<noteq> None then Inl TypeError
      else Inr (JStr ''[object Object]''))"
| "ToPrimitive rt v = Inr v"

text \<open>The conversion of a primitive to a number.\<close>

fun ToNumber :: "js_runtime \<Rightarrow> json \<Rightarrow> jsnum" where
  "ToNumber rt JNull = Num 0"
| "ToNumber rt (JBool b) = Num (if b then 1 else 0)"
| "ToNumber rt (JNum n) = Num n"
| "ToNumber rt (JFrac x) = Frac x"
| "ToNumber rt (JInf b) = Inf b"
| "ToNumber rt (JStr s) = StringToNumber rt s"
| "ToNumber rt v = NaN"

text \<open>\<open>a > w\<close> for a number \<open>a\<close> and an integer \<open>w\<close>; a comparison with \<open>NaN\<close> is
  false.\<close>

fun num_gt :: "jsnum \<Rightarrow> int \<Rightarrow> bool" where
  "num_gt NaN w = False"
| "num_gt (Num n) w = (n > w)"
| "num_gt (Frac x) w = (x > real_of_int w)"
| "num_gt (Inf b) w = b"

text \<open>\<open>v > w\<close> for a value \<open>v\<close> and an integer \<open>w\<close>: the left operand is converted to a
  primitive, which may throw, and that to a number.\<close>

definition js_gt :: "js_runtime \<Rightarrow> json \<Rightarrow> int \<Rightarrow> exn + bool" where
  "js_gt rt v w =
     (case ToPrimitive rt v of
        Inl e \<Rightarrow> Inl e
      | Inr p \<Rightarrow> Inr (num_gt (ToNumber rt p) w))"

text \<open>
  Addition and subtraction of numbers give the double nearest to the exact result. Every
  integer of magnitude up to \<open>2^53\<close> is a double, so an exact result in that range is
  the result; any other exact result is rounded by the runtime.
\<close>

definition exact :: "int \<Rightarrow> bool" where
  "exact n = (\<bar>n\<bar> \<le> 2 ^ 53)"

fun num_plus :: "js_runtime \<Rightarrow> jsnum \<Rightarrow> int \<Rightarrow> jsnum" where
  "num_plus rt NaN k = NaN"
| "num_plus rt (Num n) k = (if exact (n + k) then Num (n + k) else rounding rt (real_of_int (n + k)))"
| "num_plus rt (Frac x) k = rounding rt (x + real_of_int k)"
| "num_plus rt (Inf b) k = Inf b"

fun num_minus :: "js_runtime \<Rightarrow> jsnum \<Rightarrow> int \<Rightarrow> jsnum" where
  "num_minus rt NaN k = NaN"
| "num_minus rt (Num n) k = (if exact (n - k) then Num (n - k) else rounding rt (real_of_int (n - k)))"
| "num_minus rt (Frac x) k = rounding rt (x - real_of_int k)"
| "num_minus rt (Inf b) k = Inf b"

text \<open>\<open>v + k\<close> for an integer \<open>k\<close> whose decimal notation is \<open>ks\<close>: the left operand is
  converted to a primitive, which may throw; a string is concatenated with \<open>ks\<close>
  (\<open>Inl\<close>), anything else is converted to a number and added (\<open>Inr\<close>).\<close>

definition js_plus :: "js_runtime \<Rightarrow> json \<Rightarrow> int \<Rightarrow> string \<Rightarrow> exn + (string + jsnum)" where
  "js_plus rt v k ks =
     (case ToPrimitive rt v of
        Inl e \<Rightarrow> Inl e
      | Inr (JStr s) \<Rightarrow> Inr (Inl (s @ ks))
      | Inr p \<Rightarrow> Inr (Inr (num_plus rt (ToNumber rt p) k)))"

text \<open>\<open>x - w\<close> for a string or number \<open>x\<close> and an integer \<open>w\<close>.\<close>

definition js_minus :: "js_runtime \<Rightarrow> string + jsnum \<Rightarrow> int \<Rightarrow> jsnum" where
  "js_minus rt x w =
     num_minus rt (case x of Inl s \<Rightarrow> StringToNumber rt s | Inr a \<Rightarrow> a) w"

text \<open>\<open>Math.max(k, r)\<close> for an integer \<open>k\<close>.\<close>

fun Math_max :: "int \<Rightarrow> jsnum \<Rightarrow> jsnum" where
  "Math_max k NaN = NaN"
| "Math_max k (Num n) = Num (max k n)"
| "Math_max k (Frac x) = (if x < real_of_int k then Num k else Frac x)"
| "Math_max k (Inf b) = (if b then Inf True else Num k)"

text \<open>
  The value that the text \<open>JSON.stringify(v)\<close> denotes when it is parsed again:
  \<open>v\<close> itself, but that an infinity is written as \<open>null\<close>.
\<close>

fun JSON_stringify :: "json \<Rightarrow> json" where
  "JSON_stringify (JInf b) = JNull"
| "JSON_stringify (JArr xs) = JArr (map JSON_stringify xs)"
| "JSON_stringify (JObj kvs) = JObj (map (\<lambda>(k, v). (k, JSON_stringify v)) kvs)"
| "JSON_stringify v = v"

text \<open>\<open>s.split(',')[0]\<close>: the part of \<open>s\<close> before its first comma.\<close>

definition split_comma_head :: "string \<Rightarrow> string" where
  "split_comma_head s = takeWhile (\<lambda>c. c \<noteq> CHR '','') s"

section \<open>The key-value store binding, the request and the environment\<close>

text \<open>
  The store is a collaborator reached through two methods. A binding is given by what
  they do on a store state \<open>'s\<close>: \<open>get\<close> with \<open>type: 'json'\<close> returns the parsed value
  (\<open>JNull\<close> when the key is absent) or throws; \<open>put\<close> of a serialised value with an
  \<open>expirationTtl\<close> returns the new store state or throws. \<open>put\<close> takes the value that the
  serialised text denotes.
\<close>

record 's kv_namespace =
  get :: "string \<Rightarrow> 's \<Rightarrow> exn + json"
  put :: "string \<Rightarrow> json \<Rightarrow> int \<Rightarrow> 's \<Rightarrow> exn + 's"

record 's env =
  RATE_LIMIT_KV :: "'s kv_namespace option"
  TURNSTILE_SECRET_KEY :: "string option"

record request =
  headers :: "string \<Rightarrow> string option"

text \<open>The decision object; a field that the object does not have is \<open>None\<close>.\<close>

record decision =
  allowed :: bool
  error :: "string option"
  retryAfter :: "jsnum option"
  remaining :: "int option"
  resetAt :: "int option"

section \<open>The sliding-window rate limiter\<close>

definition RATE_LIMIT_MAX_REQUESTS :: int where
  "RATE_LIMIT_MAX_REQUESTS = 20"

definition RATE_LIMIT_WINDOW_SECONDS :: int where
  "RATE_LIMIT_WINDOW_SECONDS = 60"

text \<open>\<open>a || b\<close> on header values.\<close>

definition or_else :: "string option \<Rightarrow> string option \<Rightarrow> string option" where
  "or_else a b = (if truthy_str a then a else b)"

definition clientIP :: "js_runtime \<Rightarrow> request \<Rightarrow> string" where
  "clientIP rt request =
     (case or_else (headers request ''CF-Connecting-IP'')
             (or_else (map_option (\<lambda>s. trim rt (split_comma_head s))
                         (headers request ''X-Forwarded-For''))
                      (Some ''unknown'')) of
        Some ip \<Rightarrow> ip
      | None \<Rightarrow> ''unknown'')"

definition kvKey :: "js_runtime \<Rightarrow> request \<Rightarrow> string" where
  "kvKey rt request = ''ratelimit:'' @ clientIP rt request"

text \<open>\<open>existingData?.timestamps || []\<close>\<close>

definition timestamps_of :: "json \<Rightarrow> json" where
  "timestamps_of existingData =
     (case (case existingData of JNull \<Rightarrow> None | v \<Rightarrow> get_prop v ''timestamps'') of
        None \<Rightarrow> JArr []
      | Some v \<Rightarrow> if truthy v then v else JArr [])"

text \<open>
  \<open>xs.filter(ts => ts > windowStart)\<close> on the elements of an array: the callback runs on
  every element, and an exception of a comparison ends the call.
\<close>

fun filter_gt :: "js_runtime \<Rightarrow> int \<Rightarrow> json list \<Rightarrow> exn + json list" where
  "filter_gt rt windowStart [] = Inr []"
| "filter_gt rt windowStart (ts # xs) =
     (case js_gt rt ts windowStart of
        Inl e \<Rightarrow> Inl e
      | Inr b \<Rightarrow>
         (case filter_gt rt windowStart xs of
            Inl e \<Rightarrow> Inl e
          | Inr ys \<Rightarrow> Inr (if b then ts # ys else ys)))"

text \<open>\<open>timestamps.filter(ts => ts > windowStart)\<close>: only an array has the method.\<close>

definition filter_window :: "js_runtime \<Rightarrow> json \<Rightarrow> int \<Rightarrow> exn + json list" where
  "filter_window rt timestamps windowStart =
     (case timestamps of
        JArr xs \<Rightarrow> filter_gt rt windowStart xs
      | v \<Rightarrow> Inl TypeError)"

text \<open>The body of the \<open>try\<close> block: an exception is \<open>Inl\<close>.\<close>

definition checkRateLimit_try ::
  "js_runtime \<Rightarrow> 's kv_namespace \<Rightarrow> string \<Rightarrow> int \<Rightarrow> 's \<Rightarrow> exn + decision \<times> 's" where
  "checkRateLimit_try rt kv key now s =
     (let windowStart = now - RATE_LIMIT_WINDOW_SECONDS in
      (case get kv key s of
         Inl e \<Rightarrow> Inl e
       | Inr existingData \<Rightarrow>
          (case filter_window rt (timestamps_of existingData) windowStart of
             Inl e \<Rightarrow> Inl e
           | Inr timestamps \<Rightarrow>
              (if int (length timestamps) \<ge> RATE_LIMIT_MAX_REQUESTS then
                 (let oldestTimestamp = hd timestamps in
                  (case js_plus rt oldestTimestamp RATE_LIMIT_WINDOW_SECONDS ''60'' of
                     Inl e \<Rightarrow> Inl e
                   | Inr added \<Rightarrow>
                      (let retryAfter = js_minus rt added now
                       in Inr (\<lparr>allowed = False,
                                error = Some ''Rate limit exceeded. Please try again later.'',
                                retryAfter = Some (Math_max 1 retryAfter),
                                remaining = Some 0,
                                resetAt = None\<rparr>, s))))
               else
                 (let timestamps' = timestamps @ [JNum now] in
                  (case put kv key (JSON_stringify (JObj [(''timestamps'', JArr timestamps')]))
                          (RATE_LIMIT_WINDOW_SECONDS + 10) s of
                     Inl e \<Rightarrow> Inl e
                   | Inr s' \<Rightarrow>
                       Inr (\<lparr>allowed = True,
                             error = None,
                             retryAfter = None,
                             remaining =
                               Some (RATE_LIMIT_MAX_REQUESTS - int (length timestamps')),
                             resetAt = Some (now + RATE_LIMIT_WINDOW_SECONDS)\<rparr>, s')))))))"

text \<open>
  \<open>checkRateLimit(request, env)\<close>, with the clock reading \<open>Date.now()\<close> (milliseconds)
  and the store state made explicit. It returns the decision and the store state it
  leaves.
\<close>

definition checkRateLimit ::
  "js_runtime \<Rightarrow> request \<Rightarrow> 's env \<Rightarrow> int \<Rightarrow> 's \<Rightarrow> decision \<times> 's" where
  "checkRateLimit rt request env Date_now s =
     (case RATE_LIMIT_KV env of
        None \<Rightarrow>
          (\<lparr>allowed = True, error = None, retryAfter = None,
            remaining = None, resetAt = None\<rparr>, s)
      | Some kv \<Rightarrow>
          (let now = Date_now div 1000 in
           (case checkRateLimit_try rt kv (kvKey rt request) now s of
              Inr r \<Rightarrow> r
            | Inl e \<Rightarrow>
                (\<lparr>allowed = True, error = Some ''Rate limit check failed'',
                  retryAfter = None, remaining = None, resetAt = None\<rparr>, s))))"

section \<open>The verification gate\<close>

text \<open>
  The verification service is reached by \<open>fetch\<close>; the call is a parameter, a function
  of the secret and the token sent in the form body. The call throws, or gives a response
  whose \<open>json()\<close> throws or gives the parsed body.
\<close>

type_synonym response = "exn + json"

record verification =
  success :: bool
  verror :: "string option"

text \<open>The body of the \<open>try\<close> block; \<open>data.success\<close> on \<open>null\<close> is a \<open>TypeError\<close>.\<close>

definition verifyTurnstileToken_try ::
  "(string \<Rightarrow> string \<Rightarrow> exn + response) \<Rightarrow> string \<Rightarrow> string \<Rightarrow> exn + verification" where
  "verifyTurnstileToken_try fetch secretKey token =
     (case fetch secretKey token of
        Inl e \<Rightarrow> Inl e
      | Inr response \<Rightarrow>
         (case response of
            Inl e \<Rightarrow> Inl e
          | Inr data \<Rightarrow>
             (case data of
                JNull \<Rightarrow> Inl TypeError
              | v \<Rightarrow>
                 (if \<not> truthy_prop data ''success''
                  then Inr \<lparr>success = False, verror = Some ''Security verification failed''\<rparr>
                  else Inr \<lparr>success = True, verror = None\<rparr>))))"

definition verifyTurnstileToken ::
  "(string \<Rightarrow> string \<Rightarrow> exn + response) \<Rightarrow> string option \<Rightarrow> 's env \<Rightarrow> verification" where
  "verifyTurnstileToken fetch token env =
     (if TURNSTILE_SECRET_KEY env = Some ''SKIP_FOR_LOCAL_DEV'' then
        \<lparr>success = True, verror = None\<rparr>
      else
        (case token of
           None \<Rightarrow> \<lparr>success = False, verror = Some ''No Turnstile token provided''\<rparr>
         | Some tok \<Rightarrow>
            (if tok = [] then
               \<lparr>success = False, verror = Some ''No Turnstile token provided''\<rparr>
             else
               (case TURNSTILE_SECRET_KEY env of
                  None \<Rightarrow> \<lparr>success = False, verror = Some ''Server configuration error''\<rparr>
                | Some secretKey \<Rightarrow>
                   (if secretKey = [] then
                      \<lparr>success = False, verror = Some ''Server configuration error''\<rparr>
                    else
                      (case verifyTurnstileToken_try fetch secretKey tok of
                         Inr v \<Rightarrow> v
                       | Inl e \<Rightarrow>
                           \<lparr>success = False,
                             verror = Some ''Security verification error''\<rparr>))))))"

section \<open>The client-side request lock\<close>

text \<open>
  The page state: the two module-level variables, the buttons of the document, whether
  the document has the widget element, whether \<open>window.turnstile\<close> is there, and how often
  the widget has been reset and executed.
\<close>

record button =
  action_button :: bool
  disabled :: bool
  opacity :: string
  cursor :: string

record page =
  currentTurnstileToken :: "string option"
  currentRequestId :: "string option"
  buttons :: "button list"
  turnstileElement :: bool
  turnstile :: bool
  executions :: nat

definition onTurnstileRefresh :: "string \<Rightarrow> page \<Rightarrow> page" where
  "onTurnstileRefresh token s = s\<lparr>currentTurnstileToken := Some token\<rparr>"

text \<open>Only the buttons selected by \<open>button[data-action-button="true"]\<close> are touched.\<close>

definition setButtonsEnabled :: "bool \<Rightarrow> page \<Rightarrow> page" where
  "setButtonsEnabled enabled s =
     s\<lparr>buttons :=
         map (\<lambda>b. if action_button b
                  then b\<lparr>disabled := \<not> enabled,
                         opacity := (if enabled then ''1'' else ''0.5''),
                         cursor := (if enabled then ''pointer'' else ''not-allowed'')\<rparr>
                  else b)
             (buttons s)\<rparr>"

definition completeRequest :: "string \<Rightarrow> page \<Rightarrow> page" where
  "completeRequest requestId s =
     (if currentRequestId s = Some requestId
      then setButtonsEnabled True (s\<lparr>currentRequestId := None\<rparr>)
      else s)"

text \<open>
  The part of \<open>getTurnstileToken\<close> that runs before the promise is created. The fresh
  identifier built from the clock and the random number generator is the parameter
  \<open>requestId\<close>. An exception is \<open>Inl\<close> with its message.
\<close>

definition getTurnstileToken_start :: "string \<Rightarrow> page \<Rightarrow> (string + string) \<times> page" where
  "getTurnstileToken_start requestId s =
     (if currentRequestId s \<noteq> None then
        (Inl ''Please wait for the current request to complete'', s)
      else
        (let s1 = s\<lparr>currentRequestId := Some requestId\<rparr>;
             s2 = setButtonsEnabled False s1;
             s3 = s2\<lparr>currentTurnstileToken := None\<rparr>
         in if \<not> turnstileElement s3 then (Inl ''Turnstile widget not found'', s3)
            else
              (let s4 = (if turnstile s3 then s3\<lparr>executions := executions s3 + 1\<rparr> else s3)
               in (Inr requestId, s4))))"

definition maxAttempts :: nat where
  "maxAttempts = 100"

text \<open>How the promise settles: resolved with the token and the identifier, or rejected
  with an error message.\<close>

datatype settled = Resolved string string | Rejected string

text \<open>
  The interval callback \<open>checkToken\<close>, run every 100 ms until it clears the interval.
  Between two runs any other callback of the page may run: \<open>others k\<close> is what they do to
  the page state before run \<open>k + 1\<close>. The result is how the promise settles, the number
  of runs made, and the page state left.
\<close>

function checkToken ::
  "(nat \<Rightarrow> page \<Rightarrow> page) \<Rightarrow> string \<Rightarrow> nat \<Rightarrow> page \<Rightarrow> settled \<times> nat \<times> page" where
  "checkToken others requestId attempts s =
     (let s1 = others attempts s;
          attempts1 = attempts + 1
      in (case (if truthy_str (currentTurnstileToken s1) then currentTurnstileToken s1
                else None) of
            Some token \<Rightarrow> (Resolved token requestId, attempts1, s1)
          | None \<Rightarrow>
             (if attempts1 \<ge> maxAttempts then
                (let s2 = (if currentRequestId s1 = Some requestId
                           then setButtonsEnabled True (s1\<lparr>currentRequestId := None\<rparr>)
                           else s1)
                 in (Rejected ''Turnstile verification timeout'', attempts1, s2))
              else checkToken others requestId attempts1 s1)))"
  by pat_completeness auto
termination
  by (relation "measure (\<lambda>(others, requestId, attempts, s). maxAttempts - attempts)") auto

declare checkToken.simps [simp del]

definition getTurnstileToken ::
  "(nat \<Rightarrow> page \<Rightarrow> page) \<Rightarrow> string \<Rightarrow> page \<Rightarrow> settled \<times> nat \<times> page" where
  "getTurnstileToken others requestId s =
     (case getTurnstileToken_start requestId s of
        (Inl message, s') \<Rightarrow> (Rejected message, 0, s')
      | (Inr rid, s') \<Rightarrow> checkToken others rid 0 s')"


section \<open>A store for scenarios\<close>

text \<open>
  Modelled from the spec: the key-value store itself is a collaborator and not code of
  the repository. It maps a key to a value with a per-key expiry; an entry written at
  second \<open>now\<close> with a time to live \<open>ttl\<close> is gone from second \<open>now + ttl\<close> on, and a
  missing entry reads as \<open>null\<close>. The binding \<open>memory_kv now\<close> is the store as seen by a
  request served at second \<open>now\<close>.
\<close>

type_synonym memory = "(string \<times> json \<times> int) list"

definition memory_get :: "int \<Rightarrow> string \<Rightarrow> memory \<Rightarrow> exn + json" where
  "memory_get now k m =
     (case map_of m k of
        None \<Rightarrow> Inr JNull
      | Some (v, expires) \<Rightarrow> if now < expires then Inr v else Inr JNull)"

definition memory_put :: "int \<Rightarrow> string \<Rightarrow> json \<Rightarrow> int \<Rightarrow> memory \<Rightarrow> exn + memory" where
  "memory_put now k v ttl m = Inr ((k, v, now + ttl) # filter (\<lambda>e. fst e \<noteq> k) m)"

definition memory_kv :: "int \<Rightarrow> memory kv_namespace" where
  "memory_kv now = \<lparr>get = memory_get now, put = memory_put now\<rparr>"

text \<open>One admission check per listed second, in order, on the same store.\<close>

fun checks_at :: "js_runtime \<Rightarrow> request \<Rightarrow> int list \<Rightarrow> memory \<Rightarrow> decision list \<times> memory" where
  "checks_at rt request [] m = ([], m)"
| "checks_at rt request (t # ts) m =
     (case checkRateLimit rt request
             \<lparr>RATE_LIMIT_KV = Some (memory_kv t), TURNSTILE_SECRET_KEY = None\<rparr>
             (t * 1000) m of
        (d, m') \<Rightarrow> (case checks_at rt request ts m' of (ds, m'') \<Rightarrow> (d # ds, m'')))"

text \<open>A store binding that records every \<open>put\<close> made; \<open>reads\<close> is what \<open>get\<close> does.\<close>

type_synonym put_log = "(string \<times> json \<times> int) list"

definition recording_kv :: "(string \<Rightarrow> put_log \<Rightarrow> exn + json) \<Rightarrow> put_log kv_namespace" where
  "recording_kv reads = \<lparr>get = reads, put = (\<lambda>k v ttl log. Inr (log @ [(k, v, ttl)]))\<rparr>"


section \<open>Concrete inputs\<close>

text \<open>A request whose \<open>CF-Connecting-IP\<close> header is \<open>ip\<close> and that has no other header.\<close>

definition request_from :: "string \<Rightarrow> request" where
  "request_from ip =
     \<lparr>headers = (\<lambda>h. if h = ''CF-Connecting-IP'' then Some ip else None)\<rparr>"

text \<open>A store binding with a fixed outcome of \<open>get\<close> and of \<open>put\<close>, on a store without
  state of its own.\<close>

definition stub_kv :: "exn + json \<Rightarrow> exn + unit \<Rightarrow> unit kv_namespace" where
  "stub_kv r w = \<lparr>get = (\<lambda>k s. r), put = (\<lambda>k v ttl s. w)\<rparr>"

text \<open>An idle page with a token left from an earlier request, an enabled action button,
  a disabled button of another kind, and the widget in place.\<close>

definition idle_page :: page where
  "idle_page =
     \<lparr>currentTurnstileToken = Some ''stale-token'',
      currentRequestId = None,
      buttons =
        [\<lparr>action_button = True, disabled = False, opacity = ''1'', cursor = ''pointer''\<rparr>,
         \<lparr>action_button = False, disabled = True, opacity = ''0.3'', cursor = ''default''\<rparr>],
      turnstileElement = True,
      turnstile = True,
      executions = 0\<rparr>"

section \<open>Properties of the rate limiter\<close>

subsection \<open>Coercions\<close>

text \<open>The only exception of a coercion is the \<open>TypeError\<close>.\<close>

lemma ToString_join_TypeError:
  shows "ToString rt v = Inl e \<Longrightarrow> e = TypeError"
    and "join rt xs = Inl e \<Longrightarrow> e = TypeError"
  by (induction rt v and rt xs rule: ToString_join.induct)
     (auto split: sum.splits json.splits if_splits)

lemma ToPrimitive_TypeError: "ToPrimitive rt v = Inl e \<Longrightarrow> e = TypeError"
  by (cases v) (auto split: sum.splits if_splits dest: ToString_join_TypeError(2))

lemma js_gt_TypeError: "js_gt rt v w = Inl e \<Longrightarrow> e = TypeError"
  by (auto simp: js_gt_def split: sum.splits dest: ToPrimitive_TypeError)

text \<open>\<open>[7, true, null, "x", [], {}, [null, null]].join()\<close> is
  \<open>"7,true,,x,,[object Object],,"\<close>, and the \<open>join\<close> of an array that holds an object with a
  \<open>toString\<close> of its own throws.\<close>

lemma join_example:
  "join rt [JNum 7, JBool True, JNull, JStr ''x'', JArr [], JObj [], JArr [JNull, JNull]]
     = Inr (NumberToString rt (Num 7) @ '',true,,x,,[object Object],,'')"
  by simp

lemma join_own_toString:
  "join rt [JNum 7, JObj [(''toString'', JNull)]] = Inl TypeError"
  by simp

text \<open>The comparison on the values that the scenarios below store.\<close>

lemma js_gt_JNum: "js_gt rt (JNum t) w = Inr (t > w)"
  by (simp add: js_gt_def)



lemma js_gt_JInf: "js_gt rt (JInf b) w = Inr b"
  by (simp add: js_gt_def)


text \<open>A value that was compared without an exception is added without one.\<close>

lemma js_plus_after_js_gt:
  "js_gt rt v w = Inr b \<Longrightarrow> \<exists>added. js_plus rt v k ks = Inr added"
  by (cases "ToPrimitive rt v") (auto simp: js_gt_def js_plus_def split: json.splits)

text \<open>Arithmetic within the range in which doubles are exact, and on \<open>Infinity\<close>.\<close>

lemma exact_numeral [simp]: "numeral k \<le> (2 ^ 53 :: int) \<Longrightarrow> exact (numeral k)"
  by (simp add: exact_def)

lemma exact_zero [simp]: "exact 0"
  by (simp add: exact_def)

lemma js_plus_JNum: "exact (n + k) \<Longrightarrow> js_plus rt (JNum n) k ks = Inr (Inr (Num (n + k)))"
  by (simp add: js_plus_def)


lemma js_plus_JInf: "js_plus rt (JInf b) k ks = Inr (Inr (Inf b))"
  by (simp add: js_plus_def)

lemma js_minus_Num: "exact (n - w) \<Longrightarrow> js_minus rt (Inr (Num n)) w = Num (n - w)"
  by (simp add: js_minus_def)

lemma js_minus_Inf: "js_minus rt (Inr (Inf b)) w = Inf b"
  by (simp add: js_minus_def)

lemma first_timestamp_retry:
  assumes "\<bar>t\<bar> \<le> 2 ^ 51" and "\<bar>now\<bar> \<le> 2 ^ 51"
  shows "js_plus rt (JNum t) 60 ''60'' = Inr (Inr (Num (t + 60)))"
    and "Math_max 1 (js_minus rt (Inr (Num (t + 60))) now) = Num (max 1 (t + 60 - now))"
proof -
  have "\<bar>t + 60\<bar> \<le> 2 ^ 53" and "\<bar>t + 60 - now\<bar> \<le> 2 ^ 53"
    using assms by simp_all
  then have e: "exact (t + 60)" "exact (t + 60 - now)"
    by (simp_all add: exact_def)
  show "js_plus rt (JNum t) 60 ''60'' = Inr (Inr (Num (t + 60)))"
    using e(1) by (simp add: js_plus_def)
  show "Math_max 1 (js_minus rt (Inr (Num (t + 60))) now) = Num (max 1 (t + 60 - now))"
    using e(2) by (simp add: js_minus_def)
qed

lemma Math_max_shape:
  "Math_max 1 r = NaN \<or> (\<exists>n. 1 \<le> n \<and> Math_max 1 r = Num n)
   \<or> (\<exists>x. 1 \<le> x \<and> Math_max 1 r = Frac x) \<or> Math_max 1 r = Inf True"
  by (cases r) auto

subsection \<open>Pruning\<close>

lemma filter_gt_eq:
  "filter_gt rt w xs =
     (if \<forall>x \<in> set xs. \<exists>b. js_gt rt x w = Inr b
      then Inr (filter (\<lambda>x. js_gt rt x w = Inr True) xs)
      else Inl TypeError)"
proof (induction xs)
  case Nil
  show ?case by simp
next
  case (Cons x xs)
  show ?case
  proof (cases "js_gt rt x w")
    case (Inl e)
    then show ?thesis by (auto dest: js_gt_TypeError)
  next
    case (Inr b)
    then show ?thesis using Cons by auto
  qed
qed

lemma filter_gt_Inr:
  "filter_gt rt w xs = Inr ys \<longleftrightarrow>
     (\<forall>x \<in> set xs. \<exists>b. js_gt rt x w = Inr b)
     \<and> ys = filter (\<lambda>x. js_gt rt x w = Inr True) xs"
  by (auto simp: filter_gt_eq)


lemma filter_gt_nums:
  "filter_gt rt w (map JNum ts) = Inr (map JNum (filter (\<lambda>t. \<not> t \<le> w) ts))"
  by (induction ts) (auto simp: js_gt_JNum)

lemma filter_window_Inr:
  "filter_window rt v w = Inr ys \<longleftrightarrow> (\<exists>xs. v = JArr xs \<and> filter_gt rt w xs = Inr ys)"
  by (cases v) (auto simp: filter_window_def)


lemma filter_window_hd:
  assumes "filter_window rt v w = Inr ys" and "ys \<noteq> []"
  shows "js_gt rt (hd ys) w = Inr True"
proof -
  from assms(1) obtain xs where "ys = filter (\<lambda>x. js_gt rt x w = Inr True) xs"
    by (auto simp: filter_window_Inr filter_gt_Inr)
  moreover have "hd ys \<in> set ys"
    using assms(2) by simp
  ultimately show ?thesis
    by auto
qed

lemma JSON_stringify_nums: "map JSON_stringify (map JNum ts) = map JNum ts"
  by (induction ts) simp_all


lemma kvKey_request_from:
  "kvKey rt (request_from ip) = ''ratelimit:'' @ (if ip = [] then ''unknown'' else ip)"
  by (simp add: kvKey_def clientIP_def request_from_def or_else_def)

text \<open>The key when only \<open>X-Forwarded-For\<close> is present, when no header is, and when
  both are.\<close>

lemma kvKey_forwarded:
  "kvKey rt \<lparr>headers = (\<lambda>h. if h = ''X-Forwarded-For'' then Some ''5.6.7.8, 9.9.9.9'' else None)\<rparr>
     = ''ratelimit:'' @ (if trim rt ''5.6.7.8'' = [] then ''unknown'' else trim rt ''5.6.7.8'')"
  by (simp add: kvKey_def clientIP_def or_else_def split_comma_head_def)

lemma kvKey_unknown: "kvKey rt \<lparr>headers = (\<lambda>h. None)\<rparr> = ''ratelimit:unknown''"
  by (simp add: kvKey_def clientIP_def or_else_def)

lemma kvKey_connecting:
  "kvKey rt \<lparr>headers = (\<lambda>h. if h = ''X-Forwarded-For'' then Some ''5.6.7.8'' else Some ''1.2.3.4'')\<rparr>
     = ''ratelimit:1.2.3.4''"
  by (simp add: kvKey_def clientIP_def or_else_def)

subsection \<open>The two outcomes of the \<open>try\<close> block\<close>


lemma try_Inr:
  "checkRateLimit_try rt kv key now s = Inr (d, s') \<longleftrightarrow>
     (\<exists>v pruned. get kv key s = Inr v
        \<and> filter_window rt (timestamps_of v) (now - 60) = Inr pruned \<and>
        (if 20 \<le> length pruned
         then s' = s \<and>
              (\<exists>added. js_plus rt (hd pruned) 60 ''60'' = Inr added \<and>
                 d = \<lparr>allowed = False,
                       error = Some ''Rate limit exceeded. Please try again later.'',
                       retryAfter = Some (Math_max 1 (js_minus rt added now)),
                       remaining = Some 0, resetAt = None\<rparr>)
         else put kv key (JObj [(''timestamps'',
                  JArr (map JSON_stringify pruned @ [JNum now]))]) 70 s = Inr s' \<and>
              d = \<lparr>allowed = True, error = None, retryAfter = None,
                    remaining = Some (19 - int (length pruned)),
                    resetAt = Some (now + 60)\<rparr>))"
proof (cases "get kv key s")
  case (Inl e')
  then show ?thesis
    by (simp add: checkRateLimit_try_def)
next
  case (Inr v)
  show ?thesis
  proof (cases "filter_window rt (timestamps_of v) (now - 60)")
    case (Inl e')
    with Inr show ?thesis
      by (simp add: checkRateLimit_try_def RATE_LIMIT_WINDOW_SECONDS_def)
  next
    case pruned: (Inr pruned)
    show ?thesis
    proof (cases "20 \<le> length pruned")
      case True
      then have "pruned \<noteq> []" by auto
      from filter_window_hd [OF pruned this] obtain added
        where "js_plus rt (hd pruned) 60 ''60'' = Inr added"
        using js_plus_after_js_gt by blast
      with Inr pruned True show ?thesis
        by (auto simp: checkRateLimit_try_def RATE_LIMIT_WINDOW_SECONDS_def
            RATE_LIMIT_MAX_REQUESTS_def Let_def)
    next
      case False
      with Inr pruned show ?thesis
        by (auto simp: checkRateLimit_try_def RATE_LIMIT_WINDOW_SECONDS_def
            RATE_LIMIT_MAX_REQUESTS_def Let_def split: sum.splits)
    qed
  qed
qed


lemma returned_decision:
  assumes "checkRateLimit_try rt kv (kvKey rt request) (Date_now div 1000) s = Inr r"
    and "RATE_LIMIT_KV env = Some kv"
  shows "checkRateLimit rt request env Date_now s = r"
  using assms by (simp add: checkRateLimit_def)

lemma rejects_with:
  assumes "RATE_LIMIT_KV env = Some kv"
    and "get kv (kvKey rt request) s = Inr d"
    and "filter_window rt (timestamps_of d) (Date_now div 1000 - 60) = Inr pruned"
    and "20 \<le> length pruned"
    and "js_plus rt (hd pruned) 60 ''60'' = Inr added"
    and "Math_max 1 (js_minus rt added (Date_now div 1000)) = ra"
  shows "checkRateLimit rt request env Date_now s = (\<lparr>allowed = False,
            error = Some ''Rate limit exceeded. Please try again later.'',
            retryAfter = Some ra, remaining = Some 0, resetAt = None\<rparr>, s)"
proof -
  have "checkRateLimit_try rt kv (kvKey rt request) (Date_now div 1000) s = Inr (\<lparr>allowed = False,
            error = Some ''Rate limit exceeded. Please try again later.'',
            retryAfter = Some ra, remaining = Some 0, resetAt = None\<rparr>, s)"
    unfolding try_Inr using assms(2-6) by simp
  then show ?thesis
    using assms(1) by (rule returned_decision)
qed

lemma checkRateLimit_cases:
  "checkRateLimit rt request env Date_now s = (d, s') \<longleftrightarrow>
     (case RATE_LIMIT_KV env of
        None \<Rightarrow> s' = s \<and> d = \<lparr>allowed = True, error = None, retryAfter = None,
                                remaining = None, resetAt = None\<rparr>
      | Some kv \<Rightarrow>
          checkRateLimit_try rt kv (kvKey rt request) (Date_now div 1000) s = Inr (d, s')
        \<or> (\<exists>e. checkRateLimit_try rt kv (kvKey rt request) (Date_now div 1000) s = Inl e)
           \<and> s' = s
           \<and> d = \<lparr>allowed = True, error = Some ''Rate limit check failed'',
                   retryAfter = None, remaining = None, resetAt = None\<rparr>)"
  by (auto simp: checkRateLimit_def Let_def split: option.splits sum.splits)


text \<open>What evaluates a scenario on the store with expiry.\<close>

lemmas scenario_simps =
  checkRateLimit_def checkRateLimit_try_def kvKey_request_from memory_kv_def
  memory_get_def memory_put_def timestamps_of_def filter_window_def js_gt_JNum
  js_plus_JNum js_minus_Num RATE_LIMIT_WINDOW_SECONDS_def RATE_LIMIT_MAX_REQUESTS_def Let_def

subsection \<open>Rejection at the limit\<close>




subsection \<open>Admission below the limit\<close>

text \<open>
  C2, as amended. With a configured store, a successful read, a pruning that succeeds and
  leaves fewer than 20 elements, and a successful write, the check appends \<open>now\<close>, writes
  the sequence under the client's key with a time to live of 70 seconds, and admits with
  \<open>remaining = 20 - newCount\<close> and \<open>resetAt = now + 60\<close>; the state is the one the write
  returns. The pruned sequence is the stored array without the elements that do not
  compare greater than \<open>now - 60\<close>; for stored integers, every timestamp
  \<open>\<le> now - 60\<close> is dropped and the others are kept in order, and what is written is
  the pruned sequence with \<open>now\<close> appended.
\<close>

theorem admit_below_limit:
  assumes kv: "RATE_LIMIT_KV env = Some kv"
    and rd: "get kv (kvKey rt request) s = Inr existingData"
    and pr: "filter_window rt (timestamps_of existingData) (Date_now div 1000 - 60) = Inr pruned"
    and below: "length pruned < 20"
    and wr: "put kv (kvKey rt request)
               (JObj [(''timestamps'',
                  JArr (map JSON_stringify pruned @ [JNum (Date_now div 1000)]))]) 70 s
             = Inr s'"
  shows "checkRateLimit rt request env Date_now s =
           (\<lparr>allowed = True, error = None, retryAfter = None,
             remaining = Some (20 - int (length (pruned @ [JNum (Date_now div 1000)]))),
             resetAt = Some (Date_now div 1000 + 60)\<rparr>, s')
       \<and> (\<exists>xs. timestamps_of existingData = JArr xs
             \<and> pruned = filter (\<lambda>ts. js_gt rt ts (Date_now div 1000 - 60) = Inr True) xs)
       \<and> (timestamps_of existingData = JArr (map JNum ts) \<longrightarrow>
             pruned = map JNum (filter (\<lambda>t. \<not> t \<le> Date_now div 1000 - 60) ts)
           \<and> map JSON_stringify pruned = pruned)"
proof (intro conjI impI)
  let ?now = "Date_now div 1000"
  have "checkRateLimit_try rt kv (kvKey rt request) ?now s =
          Inr (\<lparr>allowed = True, error = None, retryAfter = None,
             remaining = Some (20 - int (length (pruned @ [JNum ?now]))),
             resetAt = Some (?now + 60)\<rparr>, s')"
    using rd pr below wr by (simp add: try_Inr)
  then show "checkRateLimit rt request env Date_now s =
           (\<lparr>allowed = True, error = None, retryAfter = None,
             remaining = Some (20 - int (length (pruned @ [JNum ?now]))),
             resetAt = Some (?now + 60)\<rparr>, s')"
    using kv by (rule returned_decision)
  show "\<exists>xs. timestamps_of existingData = JArr xs
             \<and> pruned = filter (\<lambda>ts. js_gt rt ts (?now - 60) = Inr True) xs"
    using pr by (auto simp: filter_window_Inr filter_gt_Inr)
next
  assume "timestamps_of existingData = JArr (map JNum ts)"
  with pr show "pruned = map JNum (filter (\<lambda>t. \<not> t \<le> Date_now div 1000 - 60) ts)"
    by (simp add: filter_window_def filter_gt_nums)
  then show "map JSON_stringify pruned = pruned"
    by (simp add: JSON_stringify_nums)
qed

text \<open>The theorem on the scenario store at second 61, holding the timestamps 0 to 19
  written at second 19: the timestamps 0 and 1 are dropped, 61 is appended, the entry is
  rewritten to expire at second 131, and one admission remains. And on a stored
  \<open>[Infinity, 1]\<close>, as \<open>[1e999, 1]\<close> parses: 1 is dropped, \<open>Infinity\<close> remains and is
  written as \<open>null\<close>.\<close>

theorem admit_below_limit_witness:
  "(\<forall>rt. checkRateLimit rt (request_from ''1.2.3.4'')
          \<lparr>RATE_LIMIT_KV = Some (memory_kv 61), TURNSTILE_SECRET_KEY = None\<rparr> 61000
          [(''ratelimit:1.2.3.4'', JObj [(''timestamps'', JArr (map JNum
              [0, 1, 2, 3, 4, 5, 6, 7, 8, 9, 10, 11, 12, 13, 14, 15, 16, 17, 18, 19]))], 89)]
        = (\<lparr>allowed = True, error = None, retryAfter = None,
            remaining = Some 1, resetAt = Some 121\<rparr>,
           [(''ratelimit:1.2.3.4'', JObj [(''timestamps'', JArr (map JNum
              [2, 3, 4, 5, 6, 7, 8, 9, 10, 11, 12, 13, 14, 15, 16, 17, 18, 19, 61]))], 131)]))
   \<and> (\<forall>rt. checkRateLimit rt (request_from ''1.2.3.4'')
          \<lparr>RATE_LIMIT_KV = Some (memory_kv 61), TURNSTILE_SECRET_KEY = None\<rparr> 61000
          [(''ratelimit:1.2.3.4'', JObj [(''timestamps'', JArr [JInf True, JNum 1])], 71)]
        = (\<lparr>allowed = True, error = None, retryAfter = None,
            remaining = Some 18, resetAt = Some 121\<rparr>,
           [(''ratelimit:1.2.3.4'', JObj [(''timestamps'', JArr [JNull, JNum 61])], 131)]))"
proof (intro conjI allI)
  fix rt
  let ?ts = "[0, 1, 2, 3, 4, 5, 6, 7, 8, 9, 10, 11, 12, 13, 14, 15, 16, 17, 18, 19] :: int list"
  let ?pruned = "[2, 3, 4, 5, 6, 7, 8, 9, 10, 11, 12, 13, 14, 15, 16, 17, 18, 19] :: int list"
  let ?data = "JObj [(''timestamps'', JArr (map JNum ?ts))]"
  let ?m = "[(''ratelimit:1.2.3.4'', ?data, 89)]"
  let ?m' = "[(''ratelimit:1.2.3.4'', JObj [(''timestamps'', JArr (map JNum
              [2, 3, 4, 5, 6, 7, 8, 9, 10, 11, 12, 13, 14, 15, 16, 17, 18, 19, 61]))], 131)]"
  let ?env = "\<lparr>RATE_LIMIT_KV = Some (memory_kv 61), TURNSTILE_SECRET_KEY = None\<rparr>"
  have kv: "RATE_LIMIT_KV ?env = Some (memory_kv 61)"
    by simp
  have rd: "get (memory_kv 61) (kvKey rt (request_from ''1.2.3.4'')) ?m = Inr ?data"
    by (simp add: memory_kv_def memory_get_def kvKey_request_from)
  have pr: "filter_window rt (timestamps_of ?data) (61000 div 1000 - 60) = Inr (map JNum ?pruned)"
    by (simp add: timestamps_of_def filter_window_def js_gt_JNum)
  have below: "length (map JNum ?pruned) < 20"
    by simp
  have wr: "put (memory_kv 61) (kvKey rt (request_from ''1.2.3.4''))
               (JObj [(''timestamps'',
                  JArr (map JSON_stringify (map JNum ?pruned) @ [JNum (61000 div 1000)]))]) 70 ?m
             = Inr ?m'"
    by (simp add: memory_kv_def memory_put_def kvKey_request_from)
  show "checkRateLimit rt (request_from ''1.2.3.4'') ?env 61000 ?m
        = (\<lparr>allowed = True, error = None, retryAfter = None,
            remaining = Some 1, resetAt = Some 121\<rparr>, ?m')"
    using admit_below_limit [OF kv rd pr below wr, THEN conjunct1] by simp
next
  fix rt
  let ?data = "JObj [(''timestamps'', JArr [JInf True, JNum 1])]"
  let ?m = "[(''ratelimit:1.2.3.4'', ?data, 71)]"
  let ?m' = "[(''ratelimit:1.2.3.4'', JObj [(''timestamps'', JArr [JNull, JNum 61])], 131)]"
  let ?env = "\<lparr>RATE_LIMIT_KV = Some (memory_kv 61), TURNSTILE_SECRET_KEY = None\<rparr>"
  have kv: "RATE_LIMIT_KV ?env = Some (memory_kv 61)"
    by simp
  have rd: "get (memory_kv 61) (kvKey rt (request_from ''1.2.3.4'')) ?m = Inr ?data"
    by (simp add: memory_kv_def memory_get_def kvKey_request_from)
  have pr: "filter_window rt (timestamps_of ?data) (61000 div 1000 - 60) = Inr [JInf True]"
    by (simp add: timestamps_of_def filter_window_def js_gt_def)
  have below: "length [JInf True] < 20"
    by simp
  have wr: "put (memory_kv 61) (kvKey rt (request_from ''1.2.3.4''))
               (JObj [(''timestamps'',
                  JArr (map JSON_stringify [JInf True] @ [JNum (61000 div 1000)]))]) 70 ?m
             = Inr ?m'"
    by (simp add: memory_kv_def memory_put_def kvKey_request_from)
  show "checkRateLimit rt (request_from ''1.2.3.4'') ?env 61000 ?m
        = (\<lparr>allowed = True, error = None, retryAfter = None,
            remaining = Some 18, resetAt = Some 121\<rparr>, ?m')"
    using admit_below_limit [OF kv rd pr below wr, THEN conjunct1] by simp
qed

text \<open>
  C2 as stated fails when the write throws after a successful read: the decision is
  the fail-open one, without \<open>remaining\<close> and \<open>resetAt\<close>, and nothing is persisted. It
  fails as well, with a store whose reads and writes all succeed, when the stored array
  holds the object \<open>{"toString": 1}\<close>: pruning throws, the decision is the fail-open one,
  and no write is made.
\<close>

theorem admit_below_limit_counterexample:
  "(\<forall>rt. checkRateLimit rt (request_from ''1.2.3.4'')
          \<lparr>RATE_LIMIT_KV = Some (stub_kv (Inr JNull) (Inl (Thrown ''KV put failed''))),
            TURNSTILE_SECRET_KEY = None\<rparr> 0 ()
        = (\<lparr>allowed = True, error = Some ''Rate limit check failed'',
            retryAfter = None, remaining = None, resetAt = None\<rparr>, ()))
   \<and> (\<forall>rt. checkRateLimit rt (request_from ''1.2.3.4'')
          \<lparr>RATE_LIMIT_KV = Some (recording_kv (\<lambda>k written.
              Inr (JObj [(''timestamps'', JArr [JObj [(''toString'', JNum 1)]])]))),
            TURNSTILE_SECRET_KEY = None\<rparr> 0 []
        = (\<lparr>allowed = True, error = Some ''Rate limit check failed'',
            retryAfter = None, remaining = None, resetAt = None\<rparr>, []))"
  by (simp add: checkRateLimit_def checkRateLimit_try_def stub_kv_def recording_kv_def
      timestamps_of_def filter_window_def js_gt_def RATE_LIMIT_WINDOW_SECONDS_def
      RATE_LIMIT_MAX_REQUESTS_def Let_def)

subsection \<open>The end-to-end scenario\<close>

text \<open>
  C3, as amended. One identity makes 20 checks at seconds 0 to 19 on an empty store, a
  21st at second 20 and one more at second 61. The first 20 are admitted with \<open>remaining\<close>
  running from 19 down to 0, the 21st is rejected with \<open>retryAfter = 40\<close>, and the check
  at second 61 is admitted with \<open>remaining = 1\<close>: the window slides, so at second 61 only
  the timestamps 0 and 1 have left it.
\<close>

theorem end_to_end_scenario:
  "map allowed (take 20 (fst (checks_at rt (request_from ''1.2.3.4'')
      [0, 1, 2, 3, 4, 5, 6, 7, 8, 9, 10, 11, 12, 13, 14, 15, 16, 17, 18, 19, 20, 61] [])))
       = [True, True, True, True, True, True, True, True, True, True, True, True, True, True, True, True, True, True, True, True]
   \<and> map remaining (take 20 (fst (checks_at rt (request_from ''1.2.3.4'')
      [0, 1, 2, 3, 4, 5, 6, 7, 8, 9, 10, 11, 12, 13, 14, 15, 16, 17, 18, 19, 20, 61] [])))
       = map Some [19, 18, 17, 16, 15, 14, 13, 12, 11, 10, 9, 8, 7, 6, 5, 4, 3, 2, 1, 0]
   \<and> drop 20 (fst (checks_at rt (request_from ''1.2.3.4'')
      [0, 1, 2, 3, 4, 5, 6, 7, 8, 9, 10, 11, 12, 13, 14, 15, 16, 17, 18, 19, 20, 61] []))
       = [\<lparr>allowed = False, error = Some ''Rate limit exceeded. Please try again later.'',
            retryAfter = Some (Num 40), remaining = Some 0, resetAt = None\<rparr>,
          \<lparr>allowed = True, error = None, retryAfter = None,
            remaining = Some 1, resetAt = Some 121\<rparr>]"
  by (simp add: scenario_simps)

text \<open>The scenario's last two decisions, for every runtime.\<close>

theorem end_to_end_scenario_witness:
  "\<forall>rt. drop 20 (fst (checks_at rt (request_from ''1.2.3.4'')
      [0, 1, 2, 3, 4, 5, 6, 7, 8, 9, 10, 11, 12, 13, 14, 15, 16, 17, 18, 19, 20, 61] []))
       = [\<lparr>allowed = False, error = Some ''Rate limit exceeded. Please try again later.'',
            retryAfter = Some (Num 40), remaining = Some 0, resetAt = None\<rparr>,
          \<lparr>allowed = True, error = None, retryAfter = None,
            remaining = Some 1, resetAt = Some 121\<rparr>]"
  using end_to_end_scenario by blast

text \<open>C3 as stated fails: the check at second 61 leaves one admission, not 19.\<close>

theorem end_to_end_scenario_counterexample:
  "\<forall>rt. remaining (last (fst (checks_at rt (request_from ''1.2.3.4'')
      [0, 1, 2, 3, 4, 5, 6, 7, 8, 9, 10, 11, 12, 13, 14, 15, 16, 17, 18, 19, 20, 61] []))) = Some 1
   \<and> remaining (last (fst (checks_at rt (request_from ''1.2.3.4'')
      [0, 1, 2, 3, 4, 5, 6, 7, 8, 9, 10, 11, 12, 13, 14, 15, 16, 17, 18, 19, 20, 61] []))) \<noteq> Some 19"
  by (simp add: scenario_simps)

subsection \<open>Failing open\<close>




subsection \<open>The shapes of a decision\<close>

text \<open>
  C5, as amended. A decision has one of four shapes. Without a configured store it is
  \<open>{allowed: true}\<close> and nothing else. With one it is the fail-open decision
  \<open>{allowed: true, error}\<close>, or an admission \<open>{allowed: true, remaining, resetAt}\<close> with
  \<open>0 \<le> remaining \<le> 19\<close> and \<open>resetAt = now + 60\<close>, or a rejection
  \<open>{allowed: false, error, retryAfter, remaining: 0}\<close> whose \<open>retryAfter\<close> is \<open>NaN\<close>,
  \<open>Infinity\<close>, or a finite number that is at least 1 and need not be an integer. When
  the first remaining element is an integer timestamp \<open>t\<close> (magnitudes up to \<open>2^51\<close>),
  \<open>retryAfter\<close> is the integer \<open>max 1 (t + 60 - now)\<close>.
\<close>

theorem decision_shapes:
  "((RATE_LIMIT_KV env = None \<and>
      fst (checkRateLimit rt request env Date_now s) =
        \<lparr>allowed = True, error = None, retryAfter = None, remaining = None, resetAt = None\<rparr>)
    \<or> (RATE_LIMIT_KV env \<noteq> None \<and>
      (fst (checkRateLimit rt request env Date_now s) =
         \<lparr>allowed = True, error = Some ''Rate limit check failed'',
           retryAfter = None, remaining = None, resetAt = None\<rparr>
       \<or> (\<exists>r. 0 \<le> r \<and> r \<le> 19 \<and>
             fst (checkRateLimit rt request env Date_now s) =
               \<lparr>allowed = True, error = None, retryAfter = None,
                 remaining = Some r, resetAt = Some (Date_now div 1000 + 60)\<rparr>)
       \<or> (\<exists>ra. (ra = NaN \<or> (\<exists>n. 1 \<le> n \<and> ra = Num n)
                  \<or> (\<exists>x. 1 \<le> x \<and> ra = Frac x) \<or> ra = Inf True) \<and>
             fst (checkRateLimit rt request env Date_now s) =
               \<lparr>allowed = False,
                 error = Some ''Rate limit exceeded. Please try again later.'',
                 retryAfter = Some ra, remaining = Some 0, resetAt = None\<rparr>))))
   \<and> (\<forall>kv d t rest.
         RATE_LIMIT_KV env = Some kv \<and> get kv (kvKey rt request) s = Inr d
         \<and> filter_window rt (timestamps_of d) (Date_now div 1000 - 60) = Inr (JNum t # rest)
         \<and> 19 \<le> length rest \<and> \<bar>t\<bar> \<le> 2 ^ 51 \<and> \<bar>Date_now div 1000\<bar> \<le> 2 ^ 51 \<longrightarrow>
         retryAfter (fst (checkRateLimit rt request env Date_now s))
           = Some (Num (max 1 (t + 60 - Date_now div 1000))))"
proof (intro conjI allI impI)
  let ?now = "Date_now div 1000"
  show "(RATE_LIMIT_KV env = None \<and>
      fst (checkRateLimit rt request env Date_now s) =
        \<lparr>allowed = True, error = None, retryAfter = None, remaining = None, resetAt = None\<rparr>)
    \<or> (RATE_LIMIT_KV env \<noteq> None \<and>
      (fst (checkRateLimit rt request env Date_now s) =
         \<lparr>allowed = True, error = Some ''Rate limit check failed'',
           retryAfter = None, remaining = None, resetAt = None\<rparr>
       \<or> (\<exists>r. 0 \<le> r \<and> r \<le> 19 \<and>
             fst (checkRateLimit rt request env Date_now s) =
               \<lparr>allowed = True, error = None, retryAfter = None,
                 remaining = Some r, resetAt = Some (?now + 60)\<rparr>)
       \<or> (\<exists>ra. (ra = NaN \<or> (\<exists>n. 1 \<le> n \<and> ra = Num n)
                  \<or> (\<exists>x. 1 \<le> x \<and> ra = Frac x) \<or> ra = Inf True) \<and>
             fst (checkRateLimit rt request env Date_now s) =
               \<lparr>allowed = False,
                 error = Some ''Rate limit exceeded. Please try again later.'',
                 retryAfter = Some ra, remaining = Some 0, resetAt = None\<rparr>)))"
  proof (cases "RATE_LIMIT_KV env")
    case None
    then show ?thesis by (simp add: checkRateLimit_def)
  next
    case (Some kv)
    obtain d s' where r: "checkRateLimit rt request env Date_now s = (d, s')"
      by (cases "checkRateLimit rt request env Date_now s")
    from r Some consider
        (ok) "checkRateLimit_try rt kv (kvKey rt request) ?now s = Inr (d, s')"
      | (caught) "d = \<lparr>allowed = True, error = Some ''Rate limit check failed'',
                     retryAfter = None, remaining = None, resetAt = None\<rparr>"
      by (auto simp: checkRateLimit_cases)
    then show ?thesis
    proof cases
      case caught
      then show ?thesis using Some r by simp
    next
      case ok
      then obtain v pruned where
        d: "if 20 \<le> length pruned
         then s' = s \<and>
              (\<exists>added. js_plus rt (hd pruned) 60 ''60'' = Inr added \<and>
                 d = \<lparr>allowed = False,
                       error = Some ''Rate limit exceeded. Please try again later.'',
                       retryAfter = Some (Math_max 1 (js_minus rt added ?now)),
                       remaining = Some 0, resetAt = None\<rparr>)
         else put kv (kvKey rt request) (JObj [(''timestamps'',
                  JArr (map JSON_stringify pruned @ [JNum ?now]))]) 70 s = Inr s' \<and>
              d = \<lparr>allowed = True, error = None, retryAfter = None,
                    remaining = Some (19 - int (length pruned)),
                    resetAt = Some (?now + 60)\<rparr>"
        unfolding try_Inr by blast
      show ?thesis
      proof (cases "20 \<le> length pruned")
        case True
        with d obtain added where "d = \<lparr>allowed = False,
                      error = Some ''Rate limit exceeded. Please try again later.'',
                      retryAfter = Some (Math_max 1 (js_minus rt added ?now)),
                      remaining = Some 0, resetAt = None\<rparr>"
          by auto
        then show ?thesis
          using Some r Math_max_shape [of "js_minus rt added ?now"]
          by auto
      next
        case False
        with d have "d = \<lparr>allowed = True, error = None, retryAfter = None,
                      remaining = Some (19 - int (length pruned)),
                      resetAt = Some (?now + 60)\<rparr>"
          by simp
        moreover have "0 \<le> 19 - int (length pruned)" "19 - int (length pruned) \<le> 19"
          using False by auto
        ultimately show ?thesis
          using Some r by auto
      qed
    qed
  qed
next
  fix kv d t rest
  let ?now = "Date_now div 1000"
  assume a: "RATE_LIMIT_KV env = Some kv \<and> get kv (kvKey rt request) s = Inr d
         \<and> filter_window rt (timestamps_of d) (?now - 60) = Inr (JNum t # rest)
         \<and> 19 \<le> length rest \<and> \<bar>t\<bar> \<le> 2 ^ 51 \<and> \<bar>?now\<bar> \<le> 2 ^ 51"
  then have b: "\<bar>t\<bar> \<le> 2 ^ 51" "\<bar>?now\<bar> \<le> 2 ^ 51"
    by simp_all
  have "checkRateLimit rt request env Date_now s =
          (\<lparr>allowed = False,
            error = Some ''Rate limit exceeded. Please try again later.'',
            retryAfter = Some (Num (max 1 (t + 60 - ?now))), remaining = Some 0,
            resetAt = None\<rparr>, s)"
  proof (rule rejects_with)
    show "RATE_LIMIT_KV env = Some kv" "get kv (kvKey rt request) s = Inr d"
      "filter_window rt (timestamps_of d) (?now - 60) = Inr (JNum t # rest)"
      using a by simp_all
    show "20 \<le> length (JNum t # rest)"
      using a by simp
    show "js_plus rt (hd (JNum t # rest)) 60 ''60'' = Inr (Inr (Num (t + 60)))"
      using first_timestamp_retry(1) [OF b] by simp
    show "Math_max 1 (js_minus rt (Inr (Num (t + 60))) ?now) = Num (max 1 (t + 60 - ?now))"
      using first_timestamp_retry(2) [OF b] .
  qed
  then show "retryAfter (fst (checkRateLimit rt request env Date_now s))
           = Some (Num (max 1 (t + 60 - ?now)))"
    by simp
qed

text \<open>The theorem without a store: of the four shapes, the decision has the first. And at
  second 20 on the stored timestamps 0 to 19: \<open>retryAfter\<close> is the integer 40.\<close>

theorem decision_shapes_witness:
  "(\<forall>rt. fst (checkRateLimit rt (request_from ''1.2.3.4'')
          \<lparr>RATE_LIMIT_KV = (None :: unit kv_namespace option),
            TURNSTILE_SECRET_KEY = None\<rparr> 20000 ())
        = \<lparr>allowed = True, error = None, retryAfter = None,
            remaining = None, resetAt = None\<rparr>)
   \<and> (\<forall>rt. retryAfter (fst (checkRateLimit rt (request_from ''1.2.3.4'')
          \<lparr>RATE_LIMIT_KV = Some (stub_kv
              (Inr (JObj [(''timestamps'', JArr (map JNum [0, 1, 2, 3, 4, 5, 6, 7, 8, 9, 10, 11, 12, 13, 14, 15, 16, 17, 18, 19]))]))
              (Inr ())),
            TURNSTILE_SECRET_KEY = None\<rparr> 20000 ())) = Some (Num 40))"
proof (intro conjI allI)
  fix rt
  show "fst (checkRateLimit rt (request_from ''1.2.3.4'')
          \<lparr>RATE_LIMIT_KV = (None :: unit kv_namespace option),
            TURNSTILE_SECRET_KEY = None\<rparr> 20000 ())
        = \<lparr>allowed = True, error = None, retryAfter = None,
            remaining = None, resetAt = None\<rparr>"
    using decision_shapes [of "\<lparr>RATE_LIMIT_KV = (None :: unit kv_namespace option),
            TURNSTILE_SECRET_KEY = None\<rparr>" rt "request_from ''1.2.3.4''" 20000 "()",
            THEN conjunct1]
    by simp
next
  fix rt
  let ?rest = "map JNum [1, 2, 3, 4, 5, 6, 7, 8, 9, 10, 11, 12, 13, 14, 15, 16, 17, 18, 19]"
  let ?d = "JObj [(''timestamps'', JArr (map JNum [0, 1, 2, 3, 4, 5, 6, 7, 8, 9, 10, 11, 12, 13, 14, 15, 16, 17, 18, 19]))]"
  let ?kv = "stub_kv (Inr ?d) (Inr ())"
  let ?env = "\<lparr>RATE_LIMIT_KV = Some ?kv, TURNSTILE_SECRET_KEY = None\<rparr>"
  have "RATE_LIMIT_KV ?env = Some ?kv
         \<and> get ?kv (kvKey rt (request_from ''1.2.3.4'')) () = Inr ?d
         \<and> filter_window rt (timestamps_of ?d) (20000 div 1000 - 60) = Inr (JNum 0 # ?rest)
         \<and> 19 \<le> length ?rest \<and> \<bar>0 :: int\<bar> \<le> 2 ^ 51 \<and> \<bar>20000 div 1000 :: int\<bar> \<le> 2 ^ 51"
    by (simp add: stub_kv_def timestamps_of_def filter_window_def js_gt_JNum)
  then show "retryAfter (fst (checkRateLimit rt (request_from ''1.2.3.4'') ?env 20000 ()))
               = Some (Num 40)"
    using decision_shapes [of ?env rt "request_from ''1.2.3.4''" 20000 "()",
            THEN conjunct2, rule_format, of ?kv ?d 0 ?rest]
    by simp
qed

text \<open>
  C5 as stated fails: without a store the decision admits and carries neither
  \<open>remaining\<close> nor \<open>resetAt\<close>. And \<open>retryAfter\<close> need not be an integer: on a record that
  holds 20 times \<open>Infinity\<close>, as \<open>1e999\<close> parses, the check rejects with
  \<open>retryAfter = Infinity\<close>.
\<close>

theorem decision_shapes_counterexample:
  "(\<forall>rt. remaining (fst (checkRateLimit rt (request_from ''1.2.3.4'')
          \<lparr>RATE_LIMIT_KV = (None :: unit kv_namespace option),
            TURNSTILE_SECRET_KEY = None\<rparr> 20000 ())) = None
   \<and> resetAt (fst (checkRateLimit rt (request_from ''1.2.3.4'')
          \<lparr>RATE_LIMIT_KV = (None :: unit kv_namespace option),
            TURNSTILE_SECRET_KEY = None\<rparr> 20000 ())) = None
   \<and> allowed (fst (checkRateLimit rt (request_from ''1.2.3.4'')
          \<lparr>RATE_LIMIT_KV = (None :: unit kv_namespace option),
            TURNSTILE_SECRET_KEY = None\<rparr> 20000 ())))
   \<and> (\<forall>rt. checkRateLimit rt (request_from ''1.2.3.4'')
          \<lparr>RATE_LIMIT_KV = Some (stub_kv
              (Inr (JObj [(''timestamps'', JArr [JInf True, JInf True, JInf True, JInf True, JInf True, JInf True, JInf True, JInf True, JInf True, JInf True, JInf True, JInf True, JInf True, JInf True, JInf True, JInf True, JInf True, JInf True, JInf True, JInf True])]))
              (Inr ())),
            TURNSTILE_SECRET_KEY = None\<rparr> 20000 ()
        = (\<lparr>allowed = False,
            error = Some ''Rate limit exceeded. Please try again later.'',
            retryAfter = Some (Inf True), remaining = Some 0, resetAt = None\<rparr>, ()))"
proof (intro conjI allI)
  fix rt
  let ?xs = "[JInf True, JInf True, JInf True, JInf True, JInf True, JInf True, JInf True, JInf True, JInf True, JInf True, JInf True, JInf True, JInf True, JInf True, JInf True, JInf True, JInf True, JInf True, JInf True, JInf True]"
  let ?d = "JObj [(''timestamps'', JArr ?xs)]"
  let ?kv = "stub_kv (Inr ?d) (Inr ())"
  show "checkRateLimit rt (request_from ''1.2.3.4'')
          \<lparr>RATE_LIMIT_KV = Some ?kv, TURNSTILE_SECRET_KEY = None\<rparr> 20000 ()
        = (\<lparr>allowed = False,
            error = Some ''Rate limit exceeded. Please try again later.'',
            retryAfter = Some (Inf True), remaining = Some 0, resetAt = None\<rparr>, ())"
  proof (rule rejects_with)
    show "RATE_LIMIT_KV \<lparr>RATE_LIMIT_KV = Some ?kv, TURNSTILE_SECRET_KEY = None\<rparr> = Some ?kv"
      by simp
    show "get ?kv (kvKey rt (request_from ''1.2.3.4'')) () = Inr ?d"
      by (simp add: stub_kv_def)
    show "filter_window rt (timestamps_of ?d) (20000 div 1000 - 60) = Inr ?xs"
      by (simp add: timestamps_of_def filter_window_def js_gt_JInf)
    show "20 \<le> length ?xs"
      by simp
    show "js_plus rt (hd ?xs) 60 ''60'' = Inr (Inr (Inf True))"
      by (simp add: js_plus_JInf)
    show "Math_max 1 (js_minus rt (Inr (Inf True)) (20000 div 1000)) = Inf True"
      by (simp add: js_minus_Inf)
  qed
qed (simp_all add: checkRateLimit_def)

subsection \<open>What is written\<close>

text \<open>
  C10. On a store that records every \<open>put\<close>, whatever its reads give, a check leaves the
  record as it was or adds one \<open>put\<close>: of the pruned sequence, of length below 20, with
  \<open>now\<close> appended, so of at most 20 elements, with a time to live of 70. A check that
  rejects adds none.
\<close>

theorem writes_bounded:
  assumes kv: "RATE_LIMIT_KV env = Some (recording_kv reads)"
  shows "(snd (checkRateLimit rt request env Date_now written) = written
          \<or> (\<exists>pruned. length pruned < 20 \<and> length (pruned @ [JNum (Date_now div 1000)]) \<le> 20 \<and>
               snd (checkRateLimit rt request env Date_now written) =
                 written @ [(kvKey rt request,
                         JObj [(''timestamps'', JArr (pruned @ [JNum (Date_now div 1000)]))],
                         70)]))
       \<and> (\<not> allowed (fst (checkRateLimit rt request env Date_now written)) \<longrightarrow>
            snd (checkRateLimit rt request env Date_now written) = written)"
proof -
  obtain d s' where r: "checkRateLimit rt request env Date_now written = (d, s')"
    by (cases "checkRateLimit rt request env Date_now written")
  let ?now = "Date_now div 1000"
  from r kv consider
      (ok) "checkRateLimit_try rt (recording_kv reads) (kvKey rt request) ?now written = Inr (d, s')"
    | (caught) "s' = written" "allowed d"
    by (auto simp: checkRateLimit_cases)
  then show ?thesis
  proof cases
    case caught
    then show ?thesis using r by simp
  next
    case ok
    then obtain v pruned where
      q: "if 20 \<le> length pruned
         then s' = written \<and>
              (\<exists>added. js_plus rt (hd pruned) 60 ''60'' = Inr added \<and>
                 d = \<lparr>allowed = False,
                       error = Some ''Rate limit exceeded. Please try again later.'',
                       retryAfter = Some (Math_max 1 (js_minus rt added ?now)),
                       remaining = Some 0, resetAt = None\<rparr>)
         else put (recording_kv reads) (kvKey rt request) (JObj [(''timestamps'',
                  JArr (map JSON_stringify pruned @ [JNum ?now]))]) 70 written = Inr s' \<and>
              d = \<lparr>allowed = True, error = None, retryAfter = None,
                    remaining = Some (19 - int (length pruned)),
                    resetAt = Some (?now + 60)\<rparr>"
      unfolding try_Inr by blast
    then have p: "if 20 \<le> length pruned then s' = written \<and> \<not> allowed d
          else allowed d \<and> s' = written @ [(kvKey rt request,
                 JObj [(''timestamps'', JArr (map JSON_stringify pruned @ [JNum ?now]))], 70)]"
      by (auto simp: recording_kv_def split: if_splits)
    show ?thesis
    proof (cases "20 \<le> length pruned")
      case True
      with p r show ?thesis by simp
    next
      case False
      then have "length (map JSON_stringify pruned) < 20"
        "length (map JSON_stringify pruned @ [JNum ?now]) \<le> 20"
        by simp_all
      with p False r show ?thesis
        by (intro conjI disjI2 exI [of _ "map JSON_stringify pruned"]) simp_all
    qed
  qed
qed

text \<open>The theorem at the rejection of second 20: the record of writes stays empty.\<close>

theorem writes_bounded_witness:
  "\<forall>rt. snd (checkRateLimit rt (request_from ''1.2.3.4'')
          \<lparr>RATE_LIMIT_KV = Some (recording_kv (\<lambda>k log.
              Inr (JObj [(''timestamps'', JArr (map JNum [0, 1, 2, 3, 4, 5, 6, 7, 8, 9, 10, 11, 12, 13, 14, 15, 16, 17, 18, 19]))]))),
            TURNSTILE_SECRET_KEY = None\<rparr> 20000 []) = []"
proof
  fix rt
  let ?ts = "map JNum [0, 1, 2, 3, 4, 5, 6, 7, 8, 9, 10, 11, 12, 13, 14, 15, 16, 17, 18, 19]"
  let ?d = "JObj [(''timestamps'', JArr ?ts)]"
  let ?reads = "\<lambda>(k :: string) (log :: put_log). (Inr ?d :: exn + json)"
  let ?env = "\<lparr>RATE_LIMIT_KV = Some (recording_kv ?reads), TURNSTILE_SECRET_KEY = None\<rparr>"
  have "checkRateLimit rt (request_from ''1.2.3.4'') ?env 20000 []
          = (\<lparr>allowed = False,
            error = Some ''Rate limit exceeded. Please try again later.'',
            retryAfter = Some (Num 40), remaining = Some 0, resetAt = None\<rparr>, [])"
  proof (rule rejects_with)
    show "RATE_LIMIT_KV ?env = Some (recording_kv ?reads)"
      by simp
    show "get (recording_kv ?reads) (kvKey rt (request_from ''1.2.3.4'')) [] = Inr ?d"
      by (simp add: recording_kv_def)
    show "filter_window rt (timestamps_of ?d) (20000 div 1000 - 60) = Inr ?ts"
      by (simp add: timestamps_of_def filter_window_def js_gt_JNum)
    show "20 \<le> length ?ts"
      by simp
    show "js_plus rt (hd ?ts) 60 ''60'' = Inr (Inr (Num 60))"
      by (simp add: js_plus_JNum)
    show "Math_max 1 (js_minus rt (Inr (Num 60)) (20000 div 1000)) = Num 40"
      by (simp add: js_minus_Num)
  qed
  then have "\<not> allowed (fst (checkRateLimit rt (request_from ''1.2.3.4'') ?env 20000 []))"
    by simp
  then show "snd (checkRateLimit rt (request_from ''1.2.3.4'') ?env 20000 []) = []"
    using writes_bounded [of ?env ?reads rt "request_from ''1.2.3.4''" 20000 "[]"]
    by simp
qed

section \<open>Properties of the verification gate\<close>

lemma verify_try_fails:
  "fetch secretKey tok = Inl e \<or> fetch secretKey tok = Inr (Inl e)
     \<or> fetch secretKey tok = Inr (Inr JNull) \<Longrightarrow>
   \<exists>e'. verifyTurnstileToken_try fetch secretKey tok = Inl e'"
  by (auto simp: verifyTurnstileToken_try_def)

lemma verify_try_data:
  "fetch secretKey tok = Inr (Inr data) \<Longrightarrow> data \<noteq> JNull \<Longrightarrow>
   verifyTurnstileToken_try fetch secretKey tok =
     (if truthy_prop data ''success'' then Inr \<lparr>success = True, verror = None\<rparr>
      else Inr \<lparr>success = False, verror = Some ''Security verification failed''\<rparr>)"
  by (cases data) (auto simp: verifyTurnstileToken_try_def)

lemma truthy_prop_null: "\<not> truthy_prop JNull k"
  by (simp add: truthy_prop_def)

lemma verify_try_success:
  "(\<exists>v. verifyTurnstileToken_try fetch secretKey tok = Inr v \<and> success v) \<longleftrightarrow>
     (\<exists>data. fetch secretKey tok = Inr (Inr data) \<and> truthy_prop data ''success'')"
proof (cases "fetch secretKey tok")
  case (Inl e)
  then show ?thesis by (simp add: verifyTurnstileToken_try_def)
next
  case (Inr response)
  show ?thesis
  proof (cases response)
    case (Inl e)
    with Inr show ?thesis by (simp add: verifyTurnstileToken_try_def)
  next
    case inner: (Inr data)
    show ?thesis
    proof (cases "data = JNull")
      case True
      with Inr inner show ?thesis
        by (simp add: verifyTurnstileToken_try_def truthy_prop_null)
    next
      case False
      with Inr inner show ?thesis
        by (simp add: verify_try_data)
    qed
  qed
qed

lemma verify_success_iff:
  "success (verifyTurnstileToken fetch token env) \<longleftrightarrow>
     TURNSTILE_SECRET_KEY env = Some ''SKIP_FOR_LOCAL_DEV''
   \<or> (\<exists>tok secretKey data. token = Some tok \<and> tok \<noteq> [] \<and>
         TURNSTILE_SECRET_KEY env = Some secretKey \<and> secretKey \<noteq> [] \<and>
         fetch secretKey tok = Inr (Inr data) \<and> truthy_prop data ''success'')"
proof (cases "TURNSTILE_SECRET_KEY env = Some ''SKIP_FOR_LOCAL_DEV''")
  case True
  then show ?thesis by (simp add: verifyTurnstileToken_def)
next
  case n: False
  show ?thesis
  proof (cases "\<exists>tok secretKey. token = Some tok \<and> tok \<noteq> [] \<and>
         TURNSTILE_SECRET_KEY env = Some secretKey \<and> secretKey \<noteq> []")
    case False
    then have "\<not> success (verifyTurnstileToken fetch token env)"
      using n by (auto simp: verifyTurnstileToken_def split: option.splits)
    with False n show ?thesis by blast
  next
    case True
    then obtain tok secretKey where c: "token = Some tok" "tok \<noteq> []"
      "TURNSTILE_SECRET_KEY env = Some secretKey" "secretKey \<noteq> []" by blast
    have "success (verifyTurnstileToken fetch token env) \<longleftrightarrow>
            (\<exists>v. verifyTurnstileToken_try fetch secretKey tok = Inr v \<and> success v)"
      using n c by (cases "verifyTurnstileToken_try fetch secretKey tok")
        (simp_all add: verifyTurnstileToken_def)
    then show ?thesis
      using n c by (simp add: verify_try_success)
  qed
qed

text \<open>
  C6. With the sentinel secret \<open>SKIP_FOR_LOCAL_DEV\<close> the verification succeeds whatever
  the token is, a missing one included, and without calling the service. With any other
  secret it fails when the token is missing or empty, when the secret is missing or
  empty, when \<open>fetch\<close> throws, when \<open>response.json()\<close> throws, when the body is \<open>null\<close>,
  and when the body's \<open>success\<close> is not truthy; it succeeds only when the service's body
  has a truthy \<open>success\<close>.
\<close>

theorem verify_fails_closed:
  "(TURNSTILE_SECRET_KEY env = Some ''SKIP_FOR_LOCAL_DEV'' \<longrightarrow>
      verifyTurnstileToken fetch token env = \<lparr>success = True, verror = None\<rparr>)
   \<and> (TURNSTILE_SECRET_KEY env \<noteq> Some ''SKIP_FOR_LOCAL_DEV'' \<longrightarrow>
        (\<not> truthy_str token \<longrightarrow>
           verifyTurnstileToken fetch token env =
             \<lparr>success = False, verror = Some ''No Turnstile token provided''\<rparr>)
      \<and> (truthy_str token \<and> \<not> truthy_str (TURNSTILE_SECRET_KEY env) \<longrightarrow>
           verifyTurnstileToken fetch token env =
             \<lparr>success = False, verror = Some ''Server configuration error''\<rparr>)
      \<and> (\<forall>tok secretKey. token = Some tok \<and> tok \<noteq> [] \<and>
            TURNSTILE_SECRET_KEY env = Some secretKey \<and> secretKey \<noteq> [] \<longrightarrow>
            (\<forall>e. fetch secretKey tok = Inl e \<or> fetch secretKey tok = Inr (Inl e)
                   \<or> fetch secretKey tok = Inr (Inr JNull) \<longrightarrow>
               verifyTurnstileToken fetch token env =
                 \<lparr>success = False, verror = Some ''Security verification error''\<rparr>)
          \<and> (\<forall>data. fetch secretKey tok = Inr (Inr data) \<and> data \<noteq> JNull
                     \<and> \<not> truthy_prop data ''success'' \<longrightarrow>
               verifyTurnstileToken fetch token env =
                 \<lparr>success = False, verror = Some ''Security verification failed''\<rparr>)
          \<and> (\<forall>data. fetch secretKey tok = Inr (Inr data) \<and> truthy_prop data ''success'' \<longrightarrow>
               verifyTurnstileToken fetch token env = \<lparr>success = True, verror = None\<rparr>)))
   \<and> (success (verifyTurnstileToken fetch token env) \<longleftrightarrow>
        TURNSTILE_SECRET_KEY env = Some ''SKIP_FOR_LOCAL_DEV''
      \<or> (\<exists>tok secretKey data. token = Some tok \<and> tok \<noteq> [] \<and>
            TURNSTILE_SECRET_KEY env = Some secretKey \<and> secretKey \<noteq> [] \<and>
            fetch secretKey tok = Inr (Inr data) \<and> truthy_prop data ''success''))"
proof (intro conjI impI allI)
  assume "TURNSTILE_SECRET_KEY env = Some ''SKIP_FOR_LOCAL_DEV''"
  then show "verifyTurnstileToken fetch token env = \<lparr>success = True, verror = None\<rparr>"
    by (simp add: verifyTurnstileToken_def)
next
  assume "TURNSTILE_SECRET_KEY env \<noteq> Some ''SKIP_FOR_LOCAL_DEV''" "\<not> truthy_str token"
  then show "verifyTurnstileToken fetch token env =
             \<lparr>success = False, verror = Some ''No Turnstile token provided''\<rparr>"
    by (cases token) (auto simp: verifyTurnstileToken_def)
next
  assume "TURNSTILE_SECRET_KEY env \<noteq> Some ''SKIP_FOR_LOCAL_DEV''"
    "truthy_str token \<and> \<not> truthy_str (TURNSTILE_SECRET_KEY env)"
  then show "verifyTurnstileToken fetch token env =
             \<lparr>success = False, verror = Some ''Server configuration error''\<rparr>"
    by (cases token; cases "TURNSTILE_SECRET_KEY env") (auto simp: verifyTurnstileToken_def)
next
  fix tok secretKey e
  assume n: "TURNSTILE_SECRET_KEY env \<noteq> Some ''SKIP_FOR_LOCAL_DEV''"
    and c: "token = Some tok \<and> tok \<noteq> [] \<and>
            TURNSTILE_SECRET_KEY env = Some secretKey \<and> secretKey \<noteq> []"
    and f: "fetch secretKey tok = Inl e \<or> fetch secretKey tok = Inr (Inl e)
                   \<or> fetch secretKey tok = Inr (Inr JNull)"
  from f obtain e' where "verifyTurnstileToken_try fetch secretKey tok = Inl e'"
    using verify_try_fails [of fetch secretKey tok e] by blast
  with n c show "verifyTurnstileToken fetch token env =
                 \<lparr>success = False, verror = Some ''Security verification error''\<rparr>"
    by (simp add: verifyTurnstileToken_def)
next
  fix tok secretKey data
  assume n: "TURNSTILE_SECRET_KEY env \<noteq> Some ''SKIP_FOR_LOCAL_DEV''"
    and c: "token = Some tok \<and> tok \<noteq> [] \<and>
            TURNSTILE_SECRET_KEY env = Some secretKey \<and> secretKey \<noteq> []"
    and f: "fetch secretKey tok = Inr (Inr data) \<and> data \<noteq> JNull
                     \<and> \<not> truthy_prop data ''success''"
  from f have "verifyTurnstileToken_try fetch secretKey tok =
      Inr \<lparr>success = False, verror = Some ''Security verification failed''\<rparr>"
    by (simp add: verify_try_data)
  with n c show "verifyTurnstileToken fetch token env =
                 \<lparr>success = False, verror = Some ''Security verification failed''\<rparr>"
    by (simp add: verifyTurnstileToken_def)
next
  fix tok secretKey data
  assume n: "TURNSTILE_SECRET_KEY env \<noteq> Some ''SKIP_FOR_LOCAL_DEV''"
    and c: "token = Some tok \<and> tok \<noteq> [] \<and>
            TURNSTILE_SECRET_KEY env = Some secretKey \<and> secretKey \<noteq> []"
    and f: "fetch secretKey tok = Inr (Inr data) \<and> truthy_prop data ''success''"
  from f have "data \<noteq> JNull" using truthy_prop_null by auto
  with f have "verifyTurnstileToken_try fetch secretKey tok =
      Inr \<lparr>success = True, verror = None\<rparr>"
    by (simp add: verify_try_data)
  with n c show "verifyTurnstileToken fetch token env = \<lparr>success = True, verror = None\<rparr>"
    by (simp add: verifyTurnstileToken_def)
next
  show "success (verifyTurnstileToken fetch token env) \<longleftrightarrow>
        TURNSTILE_SECRET_KEY env = Some ''SKIP_FOR_LOCAL_DEV''
      \<or> (\<exists>tok secretKey data. token = Some tok \<and> tok \<noteq> [] \<and>
            TURNSTILE_SECRET_KEY env = Some secretKey \<and> secretKey \<noteq> [] \<and>
            fetch secretKey tok = Inr (Inr data) \<and> truthy_prop data ''success'')"
    by (rule verify_success_iff)
qed

text \<open>The theorem with the sentinel secret and no token, and with a secret, a token and
  a service that answers \<open>{success: false}\<close>.\<close>

theorem verify_fails_closed_witness:
  "verifyTurnstileToken (\<lambda>secretKey tok. Inl (Thrown ''not called'')) None
      \<lparr>RATE_LIMIT_KV = (None :: unit kv_namespace option),
        TURNSTILE_SECRET_KEY = Some ''SKIP_FOR_LOCAL_DEV''\<rparr>
     = \<lparr>success = True, verror = None\<rparr>
   \<and> verifyTurnstileToken (\<lambda>secretKey tok. Inr (Inr (JObj [(''success'', JBool False)])))
      (Some ''token'')
      \<lparr>RATE_LIMIT_KV = (None :: unit kv_namespace option),
        TURNSTILE_SECRET_KEY = Some ''secret''\<rparr>
     = \<lparr>success = False, verror = Some ''Security verification failed''\<rparr>"
proof
  show "verifyTurnstileToken (\<lambda>secretKey tok. Inl (Thrown ''not called'')) None
      \<lparr>RATE_LIMIT_KV = (None :: unit kv_namespace option),
        TURNSTILE_SECRET_KEY = Some ''SKIP_FOR_LOCAL_DEV''\<rparr>
     = \<lparr>success = True, verror = None\<rparr>"
    using verify_fails_closed [of "\<lparr>RATE_LIMIT_KV = (None :: unit kv_namespace option),
        TURNSTILE_SECRET_KEY = Some ''SKIP_FOR_LOCAL_DEV''\<rparr>"
        "\<lambda>secretKey tok. Inl (Thrown ''not called'')" None]
    by simp
next
  let ?fetch = "\<lambda>(secretKey :: string) (tok :: string).
                  (Inr (Inr (JObj [(''success'', JBool False)])) :: exn + response)"
  let ?env = "\<lparr>RATE_LIMIT_KV = (None :: unit kv_namespace option),
               TURNSTILE_SECRET_KEY = Some ''secret''\<rparr>"
  have "\<not> truthy_prop (JObj [(''success'', JBool False)]) ''success''"
    by (simp add: truthy_prop_def)
  then show "verifyTurnstileToken ?fetch (Some ''token'') ?env
     = \<lparr>success = False, verror = Some ''Security verification failed''\<rparr>"
    using verify_fails_closed [of ?env ?fetch "Some ''token''"]
    by simp
qed

section \<open>Properties of the request lock\<close>

lemma setButtonsEnabled_fields [simp]:
  "currentRequestId (setButtonsEnabled b s) = currentRequestId s"
  "currentTurnstileToken (setButtonsEnabled b s) = currentTurnstileToken s"
  "turnstileElement (setButtonsEnabled b s) = turnstileElement s"
  by (simp_all add: setButtonsEnabled_def)

lemma setButtonsEnabled_True:
  "b \<in> set (buttons (setButtonsEnabled True s)) \<Longrightarrow> action_button b \<Longrightarrow> \<not> disabled b"
  by (auto simp: setButtonsEnabled_def split: if_splits)

subsection \<open>Acquiring while the lock is held\<close>

text \<open>
  C7. While a holder identifier is set, \<open>getTurnstileToken\<close> is rejected with the message
  that a request is in progress, without a single run of the interval callback, and the
  page state is left exactly as it was: the cached token is not reset, the holder is not
  replaced, the buttons are not touched, the widget is not executed.
\<close>

theorem acquire_while_held:
  assumes "currentRequestId s \<noteq> None"
  shows "getTurnstileToken others requestId s =
           (Rejected ''Please wait for the current request to complete'', 0, s)"
  using assms by (simp add: getTurnstileToken_def getTurnstileToken_start_def)

text \<open>The theorem on the page held by \<open>r1\<close>, for an acquisition that would be \<open>r2\<close>.\<close>

theorem acquire_while_held_witness:
  "getTurnstileToken (\<lambda>k p. p) ''r2'' (idle_page\<lparr>currentRequestId := Some ''r1''\<rparr>)
     = (Rejected ''Please wait for the current request to complete'', 0,
        idle_page\<lparr>currentRequestId := Some ''r1''\<rparr>)"
  using acquire_while_held [of "idle_page\<lparr>currentRequestId := Some ''r1''\<rparr>" "\<lambda>k p. p" "''r2''"]
  by simp

lemma setButtonsEnabled_buttons:
  "buttons (setButtonsEnabled enabled s) =
     map (\<lambda>b. if action_button b
              then b\<lparr>disabled := \<not> enabled,
                     opacity := (if enabled then ''1'' else ''0.5''),
                     cursor := (if enabled then ''pointer'' else ''not-allowed'')\<rparr>
              else b) (buttons s)"
  by (simp add: setButtonsEnabled_def)

subsection \<open>Releasing\<close>

text \<open>
  C8. A release with the holder's identifier clears the holder and sets every action
  button enabled, with opacity 1 and the pointer cursor: the buttons of the result are
  the buttons of the page, in the same number and order, each action button changed so
  and every other button as it was. A release with any other identifier, stale or
  never issued, leaves the page as it is, holder included. A second release with the
  same identifier changes nothing more, and no release touches the cached token.
\<close>

theorem release_by_holder_only:
  "(currentRequestId s = Some requestId \<longrightarrow>
       completeRequest requestId s =
         s\<lparr>currentRequestId := None,
           buttons := map (\<lambda>b. if action_button b
                                then b\<lparr>disabled := False, opacity := ''1'',
                                       cursor := ''pointer''\<rparr>
                                else b) (buttons s)\<rparr>
     \<and> currentRequestId (completeRequest requestId s) = None
     \<and> length (buttons (completeRequest requestId s)) = length (buttons s)
     \<and> (\<forall>i < length (buttons s).
           action_button (buttons (completeRequest requestId s) ! i)
             = action_button (buttons s ! i)
         \<and> (action_button (buttons s ! i) \<longrightarrow>
               \<not> disabled (buttons (completeRequest requestId s) ! i))
         \<and> (\<not> action_button (buttons s ! i) \<longrightarrow>
               buttons (completeRequest requestId s) ! i = buttons s ! i)))
   \<and> (currentRequestId s \<noteq> Some requestId \<longrightarrow> completeRequest requestId s = s)
   \<and> completeRequest requestId (completeRequest requestId s) = completeRequest requestId s
   \<and> currentTurnstileToken (completeRequest requestId s) = currentTurnstileToken s"
  by (auto simp: completeRequest_def setButtonsEnabled_def)

text \<open>The theorem on the idle page once \<open>r2\<close> has acquired: the action button is then
  disabled; the stale identifier \<open>r1\<close> releases nothing; \<open>r2\<close> releases, which gives the
  idle page again but for the cleared token and the one execution of the widget, with
  the action button enabled and the other button still disabled.\<close>

theorem release_by_holder_only_witness:
  "completeRequest ''r1'' (snd (getTurnstileToken_start ''r2'' idle_page))
     = snd (getTurnstileToken_start ''r2'' idle_page)
   \<and> buttons (snd (getTurnstileToken_start ''r2'' idle_page))
     = [\<lparr>action_button = True, disabled = True, opacity = ''0.5'', cursor = ''not-allowed''\<rparr>,
        \<lparr>action_button = False, disabled = True, opacity = ''0.3'', cursor = ''default''\<rparr>]
   \<and> completeRequest ''r2'' (snd (getTurnstileToken_start ''r2'' idle_page))
     = idle_page\<lparr>currentTurnstileToken := None, executions := 1\<rparr>"
proof -
  let ?held = "snd (getTurnstileToken_start ''r2'' idle_page)"
  have h: "currentRequestId ?held = Some ''r2''"
    by (simp add: getTurnstileToken_start_def idle_page_def Let_def)
  have b: "buttons ?held
     = [\<lparr>action_button = True, disabled = True, opacity = ''0.5'', cursor = ''not-allowed''\<rparr>,
        \<lparr>action_button = False, disabled = True, opacity = ''0.3'', cursor = ''default''\<rparr>]"
    by (simp add: getTurnstileToken_start_def idle_page_def Let_def setButtonsEnabled_def)
  have e: "?held\<lparr>currentRequestId := None,
           buttons := map (\<lambda>b. if action_button b
                                then b\<lparr>disabled := False, opacity := ''1'',
                                       cursor := ''pointer''\<rparr>
                                else b) (buttons ?held)\<rparr>
         = idle_page\<lparr>currentTurnstileToken := None, executions := 1\<rparr>"
    by (simp add: getTurnstileToken_start_def idle_page_def Let_def setButtonsEnabled_def)
  show ?thesis
    using release_by_holder_only [of ?held "''r1''"] release_by_holder_only [of ?held "''r2''"]
      h b e
    by simp
qed

subsection \<open>The timeout\<close>



lemma checkToken_token:
  assumes "currentTurnstileToken (others a s) = Some token" and "token \<noteq> []"
  shows "checkToken others requestId a s = (Resolved token requestId, Suc a, others a s)"
  using assms by (subst checkToken.simps) (simp add: Let_def)









end
